theory Spec2Isabelle
  imports Main
begin

section \<open>JavaScript values, objects and the heap\<close>

text \<open>
  The module \<^verbatim>\<open>src/index.js\<close> keeps one configuration object and mutates it in place;
  \<^verbatim>\<open>Object.defineProperty\<close> copies property descriptors, so nested objects of a
  merged source become shared between the source and the tree. Objects therefore live in
  an explicit heap and values refer to them by address.

  Scope of the embedding: numbers are integer valued (no NaN, no negative zero), strings
  are lists of 8-bit characters, symbols and proxies do not occur, and the automatic
  \<^verbatim>\<open>length\<close> of an array is an ordinary property. An object carries the tag that
  \<^verbatim>\<open>Object.prototype.toString\<close> reports for it, its prototype link, its
  extensibility and its own properties in \<^verbatim>\<open>[[OwnPropertyKeys]]\<close> order.
\<close>

type_synonym addr = nat

datatype jsval =
    VUndefined
  | VNull
  | VBool bool
  | VNum int
  | VStr string
  | VRef addr

text \<open>
  A thrown value. \<open>ModuleNotFound\<close> is the error of \<^verbatim>\<open>require\<close> whose
  \<^verbatim>\<open>code\<close> is \<^verbatim>\<open>'MODULE_NOT_FOUND'\<close>; \<open>PlainError m\<close> is \<^verbatim>\<open>new Error(m)\<close>;
  \<open>RangeError\<close> is the exhausted call stack; \<open>Thrown v\<close> is anything else that
  foreign code throws.
\<close>

datatype js_error =
    TypeError
  | RangeError
  | ModuleNotFound
  | PlainError string
  | Thrown jsval

datatype 'a result = Ok 'a | Threw js_error

text \<open>A property is a complete descriptor: a data property or an accessor property.\<close>

datatype descr =
    Data jsval bool bool bool
  | Accessor jsval jsval bool bool

fun desc_value :: "descr \<Rightarrow> jsval" where
  "desc_value (Data v w e c) = v"
| "desc_value (Accessor g s e c) = VUndefined"

fun desc_get :: "descr \<Rightarrow> jsval" where
  "desc_get (Data v w e c) = VUndefined"
| "desc_get (Accessor g s e c) = g"

fun desc_set :: "descr \<Rightarrow> jsval" where
  "desc_set (Data v w e c) = VUndefined"
| "desc_set (Accessor g s e c) = s"

fun enumerable :: "descr \<Rightarrow> bool" where
  "enumerable (Data v w e c) = e"
| "enumerable (Accessor g s e c) = e"

fun configurable :: "descr \<Rightarrow> bool" where
  "configurable (Data v w e c) = c"
| "configurable (Accessor g s e c) = c"

record obj =
  cls :: string
  proto :: jsval
  extensible :: bool
  props :: "(string \<times> descr) list"

type_synonym heap = "obj list"

definition lookup :: "heap \<Rightarrow> addr \<Rightarrow> obj option" where
  "lookup h a = (if a < length h then Some (h ! a) else None)"

definition store :: "heap \<Rightarrow> addr \<Rightarrow> obj \<Rightarrow> heap" where
  "store h a ob = h[a := ob]"

definition alloc :: "heap \<Rightarrow> obj \<Rightarrow> addr \<times> heap" where
  "alloc h ob = (length h, h @ [ob])"

text \<open>\<^verbatim>\<open>Object.prototype\<close> sits at a fixed address.\<close>

definition object_prototype :: addr where
  "object_prototype = 0"

text \<open>An object literal \<^verbatim>\<open>{}\<close>.\<close>

definition empty_object :: obj where
  "empty_object =
     \<lparr>cls = ''Object'', proto = VRef object_prototype, extensible = True, props = []\<rparr>"

subsection \<open>Coercions and type tests\<close>

fun truthy :: "jsval \<Rightarrow> bool" where
  "truthy VUndefined = False"
| "truthy VNull = False"
| "truthy (VBool b) = b"
| "truthy (VNum n) = (n \<noteq> 0)"
| "truthy (VStr s) = (s \<noteq> [])"
| "truthy (VRef a) = True"

fun typeof :: "heap \<Rightarrow> jsval \<Rightarrow> string" where
  "typeof h VUndefined = ''undefined''"
| "typeof h VNull = ''object''"
| "typeof h (VBool b) = ''boolean''"
| "typeof h (VNum n) = ''number''"
| "typeof h (VStr s) = ''string''"
| "typeof h (VRef a) =
     (case lookup h a of
        None \<Rightarrow> ''object''
      | Some ob \<Rightarrow> if cls ob = ''Function'' then ''function'' else ''object'')"

text \<open>
  \<^verbatim>\<open>isObject\<close> (line 18):
  \<^verbatim>\<open>Object.prototype.toString.call(obj) === '[object Object]'\<close>. The tag of a
  primitive is never \<^verbatim>\<open>Object\<close>; the tag of an object is its \<open>cls\<close>. Object
  literals, objects made by \<^verbatim>\<open>Object.create(null)\<close> and instances of classes the user
  declares all carry the tag \<^verbatim>\<open>Object\<close>; arrays, functions, dates and the other
  built-in kinds carry their own.
\<close>

fun isObject :: "heap \<Rightarrow> jsval \<Rightarrow> bool" where
  "isObject h (VRef a) = (case lookup h a of None \<Rightarrow> False | Some ob \<Rightarrow> cls ob = ''Object'')"
| "isObject h v = False"

text \<open>
  \<^verbatim>\<open>x instanceof Object\<close>: false for a primitive; for an object, whether
  \<^verbatim>\<open>Object.prototype\<close> is met on the prototype chain. The first argument bounds the
  length of the walk; a chain of a heap of \<open>n\<close> objects has at most \<open>n\<close> links.
\<close>

fun on_proto_chain :: "nat \<Rightarrow> heap \<Rightarrow> jsval \<Rightarrow> addr \<Rightarrow> bool" where
  "on_proto_chain 0 h v p = False"
| "on_proto_chain (Suc n) h (VRef a) p =
     (case lookup h a of
        None \<Rightarrow> False
      | Some ob \<Rightarrow> proto ob = VRef p \<or> on_proto_chain n h (proto ob) p)"
| "on_proto_chain (Suc n) h v p = False"

definition instanceof_Object :: "heap \<Rightarrow> jsval \<Rightarrow> bool" where
  "instanceof_Object h v = on_proto_chain (length h) h v object_prototype"

subsection \<open>Property keys\<close>

text \<open>
  An array index is the canonical decimal form of a number below \<open>2^32 - 1\<close>. Own keys
  are listed with the array indices first, in ascending order, then the other strings in
  the order of their creation.
\<close>

definition digit_char :: "nat \<Rightarrow> char" where
  "digit_char d = char_of (48 + d)"

fun string_of_nat :: "nat \<Rightarrow> string" where
  "string_of_nat n =
     (if 10 \<le> n then string_of_nat (n div 10) @ [digit_char (n mod 10)] else [digit_char n])"

definition is_digit :: "char \<Rightarrow> bool" where
  "is_digit c = (48 \<le> (of_char c :: nat) \<and> (of_char c :: nat) \<le> 57)"

definition nat_of_digits :: "string \<Rightarrow> nat" where
  "nat_of_digits s = foldl (\<lambda>acc c. 10 * acc + ((of_char c :: nat) - 48)) 0 s"

definition array_index :: "string \<Rightarrow> nat option" where
  "array_index s =
     (if s \<noteq> [] \<and> list_all is_digit s \<and> (s = ''0'' \<or> hd s \<noteq> CHR ''0'')
         \<and> nat_of_digits s < 4294967295
      then Some (nat_of_digits s) else None)"

definition key_before :: "string \<Rightarrow> string \<Rightarrow> bool" where
  "key_before k k' =
     (case array_index k of
        None \<Rightarrow> False
      | Some i \<Rightarrow> (case array_index k' of None \<Rightarrow> True | Some j \<Rightarrow> i < j))"

fun insert_prop :: "string \<Rightarrow> descr \<Rightarrow> (string \<times> descr) list \<Rightarrow> (string \<times> descr) list" where
  "insert_prop k p [] = [(k, p)]"
| "insert_prop k p (kp # ps) =
     (if key_before k (fst kp) then (k, p) # kp # ps else kp # insert_prop k p ps)"

fun replace_prop :: "string \<Rightarrow> descr \<Rightarrow> (string \<times> descr) list \<Rightarrow> (string \<times> descr) list" where
  "replace_prop k p [] = []"
| "replace_prop k p (kp # ps) =
     (if fst kp = k then (k, p) # ps else kp # replace_prop k p ps)"

text \<open>
  \<^verbatim>\<open>[[GetOwnProperty]]\<close> after \<^verbatim>\<open>ToObject\<close>: a string has its characters and its
  length, a number or a boolean has nothing.
\<close>

fun own_property :: "heap \<Rightarrow> jsval \<Rightarrow> string \<Rightarrow> descr option" where
  "own_property h (VRef a) k =
     (case lookup h a of None \<Rightarrow> None | Some ob \<Rightarrow> map_of (props ob) k)"
| "own_property h (VStr s) k =
     (case array_index k of
        Some i \<Rightarrow> if i < length s then Some (Data (VStr [s ! i]) False True False) else None
      | None \<Rightarrow>
          if k = ''length'' then Some (Data (VNum (int (length s))) False False False)
          else None)"
| "own_property h v k = None"

fun own_property_keys :: "heap \<Rightarrow> jsval \<Rightarrow> string list" where
  "own_property_keys h (VRef a) =
     (case lookup h a of None \<Rightarrow> [] | Some ob \<Rightarrow> map fst (props ob))"
| "own_property_keys h (VStr s) = map string_of_nat [0..<length s] @ [''length'']"
| "own_property_keys h v = []"

definition is_nullish :: "jsval \<Rightarrow> bool" where
  "is_nullish v = (v = VUndefined \<or> v = VNull)"

text \<open>\<^verbatim>\<open>Object.getOwnPropertyDescriptor(v, k)\<close>; \<open>None\<close> is \<^verbatim>\<open>undefined\<close>.\<close>

definition getOwnPropertyDescriptor :: "jsval \<Rightarrow> string \<Rightarrow> heap \<Rightarrow> descr option result" where
  "getOwnPropertyDescriptor v k h =
     (if is_nullish v then Threw TypeError else Ok (own_property h v k))"

text \<open>\<^verbatim>\<open>Object.keys(v)\<close>: the enumerable own string keys.\<close>

definition object_keys :: "jsval \<Rightarrow> heap \<Rightarrow> string list result" where
  "object_keys v h =
     (if is_nullish v then Threw TypeError
      else Ok (filter (\<lambda>k. case own_property h v k of None \<Rightarrow> False | Some p \<Rightarrow> enumerable p)
                 (own_property_keys h v)))"

subsection \<open>Defining a property\<close>

text \<open>
  \<^verbatim>\<open>ValidateAndApplyPropertyDescriptor\<close> for a complete descriptor: a configurable
  property takes any descriptor; a property that is not configurable takes only a
  descriptor that changes nothing but, for a writable data property, its value or its
  writability.
\<close>

fun same_kind_ok :: "descr \<Rightarrow> descr \<Rightarrow> bool" where
  "same_kind_ok (Data v w e c) (Data v' w' e' c') = (w \<or> (\<not> w' \<and> v' = v))"
| "same_kind_ok (Accessor g s e c) (Accessor g' s' e' c') = (g' = g \<and> s' = s)"
| "same_kind_ok cur new = False"

definition admissible :: "descr \<Rightarrow> descr \<Rightarrow> bool" where
  "admissible cur new =
     (configurable cur \<or>
      (\<not> configurable new \<and> enumerable new = enumerable cur \<and> same_kind_ok cur new))"

text \<open>
  \<^verbatim>\<open>Object.defineProperty(v, k, p)\<close>: a \<^verbatim>\<open>TypeError\<close> when \<open>v\<close> is not an object,
  when the key is new and the object is not extensible, or when the present property
  does not admit the descriptor. Nothing is changed when it throws.
\<close>

definition defineProperty :: "jsval \<Rightarrow> string \<Rightarrow> descr \<Rightarrow> heap \<Rightarrow> unit result \<times> heap" where
  "defineProperty v k p h =
     (case v of
        VRef a \<Rightarrow>
          (case lookup h a of
             None \<Rightarrow> (Threw TypeError, h)
           | Some ob \<Rightarrow>
               (case map_of (props ob) k of
                  None \<Rightarrow>
                    if extensible ob
                    then (Ok (), store h a (ob\<lparr>props := insert_prop k p (props ob)\<rparr>))
                    else (Threw TypeError, h)
                | Some cur \<Rightarrow>
                    if admissible cur p
                    then (Ok (), store h a (ob\<lparr>props := replace_prop k p (props ob)\<rparr>))
                    else (Threw TypeError, h)))
      | _ \<Rightarrow> (Threw TypeError, h))"


subsection \<open>What the module does not define\<close>

text \<open>
  Everything that \<^verbatim>\<open>src/index.js\<close> calls but does not define is a parameter: functions
  of user objects (getters and setters), \<^verbatim>\<open>require\<close>, \<^verbatim>\<open>fs.readFileSync\<close>,
  \<^verbatim>\<open>JSON.parse\<close>, lodash's \<^verbatim>\<open>_.get\<close>, \<^verbatim>\<open>_.set\<close> and \<^verbatim>\<open>_.camelCase\<close>,
  \<^verbatim>\<open>path.isAbsolute\<close>, \<^verbatim>\<open>path.join\<close>, \<^verbatim>\<open>process.env\<close> and
  \<^verbatim>\<open>process.cwd()\<close>. Foreign code may allocate and mutate objects and may throw; it
  does not call back into the module.
\<close>

record world =
  call_fn :: "jsval \<Rightarrow> jsval \<Rightarrow> jsval list \<Rightarrow> heap \<Rightarrow> jsval result \<times> heap"
  require_module :: "string \<Rightarrow> heap \<Rightarrow> jsval result \<times> heap"
  readFileSync :: "jsval \<Rightarrow> heap \<Rightarrow> jsval result \<times> heap"
  json_parse :: "string \<Rightarrow> heap \<Rightarrow> jsval result \<times> heap"
  lodash_get :: "jsval \<Rightarrow> jsval \<Rightarrow> jsval \<Rightarrow> heap \<Rightarrow> jsval result \<times> heap"
  lodash_set :: "jsval \<Rightarrow> jsval \<Rightarrow> jsval \<Rightarrow> heap \<Rightarrow> jsval result \<times> heap"
  lodash_camelCase :: "string \<Rightarrow> string"
  path_isAbsolute :: "string \<Rightarrow> bool"
  path_join :: "string \<Rightarrow> string \<Rightarrow> string"
  process_env :: "(string \<times> string) list"
  process_cwd :: string

subsection \<open>Sequencing with exceptions\<close>

text \<open>
  A computation takes the state and gives a result, returned or thrown, with the state
  it leaves: the mutations made before a throw stay.
\<close>

definition js_ret :: "'a \<Rightarrow> 's \<Rightarrow> 'a result \<times> 's" where
  "js_ret x s = (Ok x, s)"

definition js_throw :: "js_error \<Rightarrow> 's \<Rightarrow> 'a result \<times> 's" where
  "js_throw e s = (Threw e, s)"

definition js_bind ::
  "('s \<Rightarrow> 'a result \<times> 's) \<Rightarrow> ('a \<Rightarrow> 's \<Rightarrow> 'b result \<times> 's) \<Rightarrow> 's \<Rightarrow> 'b result \<times> 's" where
  "js_bind m f s = (case m s of (Ok x, s') \<Rightarrow> f x s' | (Threw e, s') \<Rightarrow> (Threw e, s'))"

text \<open>\<^verbatim>\<open>xs.forEach(f)\<close>: stops at the first throw.\<close>

fun forEach :: "'a list \<Rightarrow> ('a \<Rightarrow> 's \<Rightarrow> unit result \<times> 's) \<Rightarrow> 's \<Rightarrow> unit result \<times> 's" where
  "forEach [] f s = (Ok (), s)"
| "forEach (x # xs) f s =
     (case f x s of (Ok u, s') \<Rightarrow> forEach xs f s' | (Threw e, s') \<Rightarrow> (Threw e, s'))"

subsection \<open>Reading and writing a property\<close>

text \<open>The first property of the name on the prototype chain, from the object on.\<close>

fun find_prop :: "nat \<Rightarrow> heap \<Rightarrow> jsval \<Rightarrow> string \<Rightarrow> descr option" where
  "find_prop 0 h v k = None"
| "find_prop (Suc n) h (VRef a) k =
     (case lookup h a of
        None \<Rightarrow> None
      | Some ob \<Rightarrow>
          (case map_of (props ob) k of
             Some p \<Rightarrow> Some p
           | None \<Rightarrow> find_prop n h (proto ob) k))"
| "find_prop (Suc n) h v k = None"

text \<open>\<^verbatim>\<open>k in v\<close> for an object \<open>v\<close>.\<close>

definition has_property :: "heap \<Rightarrow> jsval \<Rightarrow> string \<Rightarrow> bool" where
  "has_property h v k = (find_prop (Suc (length h)) h v k \<noteq> None)"

text \<open>
  \<^verbatim>\<open>v[k]\<close>: a data property gives its value, an accessor property calls its getter
  with \<open>v\<close> as \<^verbatim>\<open>this\<close>, a missing property gives \<^verbatim>\<open>undefined\<close>. Of a string only
  the own properties are known here.
\<close>

definition js_get :: "world \<Rightarrow> jsval \<Rightarrow> string \<Rightarrow> heap \<Rightarrow> jsval result \<times> heap" where
  "js_get w v k h =
     (if is_nullish v then (Threw TypeError, h)
      else case v of
        VRef a \<Rightarrow>
          (case find_prop (Suc (length h)) h v k of
             None \<Rightarrow> (Ok VUndefined, h)
           | Some (Data x wr e c) \<Rightarrow> (Ok x, h)
           | Some (Accessor g s e c) \<Rightarrow>
               if g = VUndefined then (Ok VUndefined, h) else call_fn w g v [] h)
      | _ \<Rightarrow>
          (case own_property h v k of
             None \<Rightarrow> (Ok VUndefined, h)
           | Some p \<Rightarrow> (Ok (desc_value p), h)))"

text \<open>
  \<^verbatim>\<open>[[Set]]\<close> on an ordinary object; the result tells whether the value was taken.
  An own writable data property takes the value and keeps its attributes. An inherited
  writable data property, or no property at all, makes a new own data property when the
  object is extensible. An accessor property calls its setter. A write to a primitive
  other than \<^verbatim>\<open>undefined\<close> and \<^verbatim>\<open>null\<close> goes to a temporary wrapper and is lost.
\<close>

definition create_data_property :: "addr \<Rightarrow> obj \<Rightarrow> string \<Rightarrow> jsval \<Rightarrow> heap \<Rightarrow> bool result \<times> heap" where
  "create_data_property a ob k x h =
     (if extensible ob
      then (Ok True, store h a (ob\<lparr>props := insert_prop k (Data x True True True) (props ob)\<rparr>))
      else (Ok False, h))"

definition ordinary_set :: "world \<Rightarrow> jsval \<Rightarrow> string \<Rightarrow> jsval \<Rightarrow> heap \<Rightarrow> bool result \<times> heap" where
  "ordinary_set w v k x h =
     (if is_nullish v then (Threw TypeError, h)
      else case v of
        VRef a \<Rightarrow>
          (case lookup h a of
             None \<Rightarrow> (Threw TypeError, h)
           | Some ob \<Rightarrow>
               (case map_of (props ob) k of
                  Some (Data y wr e c) \<Rightarrow>
                    if wr
                    then (Ok True, store h a (ob\<lparr>props := replace_prop k (Data x wr e c) (props ob)\<rparr>))
                    else (Ok False, h)
                | Some (Accessor g s e c) \<Rightarrow>
                    if s = VUndefined then (Ok False, h)
                    else js_bind (call_fn w s v [x]) (\<lambda>r. js_ret True) h
                | None \<Rightarrow>
                    (case find_prop (length h) h (proto ob) k of
                       None \<Rightarrow> create_data_property a ob k x h
                     | Some (Data y wr e c) \<Rightarrow>
                         if wr then create_data_property a ob k x h else (Ok False, h)
                     | Some (Accessor g s e c) \<Rightarrow>
                         if s = VUndefined then (Ok False, h)
                         else js_bind (call_fn w s v [x]) (\<lambda>r. js_ret True) h)))
      | _ \<Rightarrow> (Ok True, h))"

text \<open>A write that throws a \<^verbatim>\<open>TypeError\<close> when the value is not taken (strict).\<close>

definition put_strict :: "world \<Rightarrow> jsval \<Rightarrow> string \<Rightarrow> jsval \<Rightarrow> heap \<Rightarrow> unit result \<times> heap" where
  "put_strict w v k x =
     js_bind (ordinary_set w v k x) (\<lambda>taken. if taken then js_ret () else js_throw TypeError)"

text \<open>
  An assignment \<^verbatim>\<open>v[k] = x\<close> of the module itself, which is not in strict mode: a value
  that is not taken is dropped silently.
\<close>

definition put_sloppy :: "world \<Rightarrow> jsval \<Rightarrow> string \<Rightarrow> jsval \<Rightarrow> heap \<Rightarrow> unit result \<times> heap" where
  "put_sloppy w v k x = js_bind (ordinary_set w v k x) (\<lambda>taken. js_ret ())"


text \<open>
  \<^verbatim>\<open>Object.assign(target, source)\<close>: for every own key of the source whose property
  is enumerable when its turn comes, read the value through \<^verbatim>\<open>[[Get]]\<close> (a getter
  runs) and write it to the target through a strict \<^verbatim>\<open>[[Set]]\<close>. A source that is
  \<^verbatim>\<open>undefined\<close> or \<^verbatim>\<open>null\<close> is skipped.
\<close>

definition assign_key :: "world \<Rightarrow> jsval \<Rightarrow> jsval \<Rightarrow> string \<Rightarrow> heap \<Rightarrow> unit result \<times> heap" where
  "assign_key w target source k h =
     (case own_property h source k of
        None \<Rightarrow> (Ok (), h)
      | Some p \<Rightarrow>
          if enumerable p
          then js_bind (js_get w source k) (\<lambda>x. put_strict w target k x) h
          else (Ok (), h))"

definition object_assign :: "world \<Rightarrow> jsval \<Rightarrow> jsval \<Rightarrow> heap \<Rightarrow> unit result \<times> heap" where
  "object_assign w target source h =
     (if is_nullish target then (Threw TypeError, h)
      else if is_nullish source then (Ok (), h)
      else forEach (own_property_keys h source) (assign_key w target source) h)"

section \<open>The merge of line 23\<close>

text \<open>
  The body of the \<^verbatim>\<open>forEach\<close> callback of \<^verbatim>\<open>merge\<close> (lines 27 to 41); \<open>self\<close> is
  the recursive call. \<^verbatim>\<open>srcVal\<close> is \<^verbatim>\<open>undefined\<close> only if the key has left the
  source since \<^verbatim>\<open>Object.keys\<close> listed it; both \<^verbatim>\<open>srcVal.get\<close> and
  \<^verbatim>\<open>Object.defineProperty\<close> throw a \<^verbatim>\<open>TypeError\<close> then.
\<close>

definition merge_recurses :: "heap \<Rightarrow> descr option \<Rightarrow> descr \<Rightarrow> bool" where
  "merge_recurses h objVal srcVal =
     (case objVal of
        None \<Rightarrow> False
      | Some ov \<Rightarrow>
          \<not> truthy (desc_get ov) \<and> \<not> truthy (desc_get srcVal) \<and>
          isObject h (desc_value srcVal) \<and> isObject h (desc_value ov))"

definition merge_key ::
  "world \<Rightarrow> (jsval \<Rightarrow> jsval \<Rightarrow> heap \<Rightarrow> jsval result \<times> heap) \<Rightarrow> jsval \<Rightarrow> jsval \<Rightarrow> string \<Rightarrow> heap
     \<Rightarrow> unit result \<times> heap" where
  "merge_key w self obj src key h =
     (case getOwnPropertyDescriptor obj key h of
        Threw e \<Rightarrow> (Threw e, h)
      | Ok objVal \<Rightarrow>
          (case getOwnPropertyDescriptor src key h of
             Threw e \<Rightarrow> (Threw e, h)
           | Ok None \<Rightarrow> (Threw TypeError, h)
           | Ok (Some srcVal) \<Rightarrow>
               if merge_recurses h objVal srcVal
               then js_bind (js_get w obj key)
                      (\<lambda>a. js_bind (js_get w src key)
                        (\<lambda>b. js_bind (self a b) (\<lambda>r. js_ret ()))) h
               else defineProperty obj key srcVal h))"

text \<open>
  \<^verbatim>\<open>merge(obj, src)\<close>. The first argument is the depth of call stack that is left:
  a call that finds none throws a \<^verbatim>\<open>RangeError\<close>, as a merge of two cyclic objects
  into each other does.
\<close>

primrec merge :: "world \<Rightarrow> nat \<Rightarrow> jsval \<Rightarrow> jsval \<Rightarrow> heap \<Rightarrow> jsval result \<times> heap" where
  "merge w 0 = (\<lambda>obj src h. (Threw RangeError, h))"
| "merge w (Suc n) = (\<lambda>obj src h.
     if \<not> truthy src then (Ok obj, h)
     else case object_keys src h of
       Threw e \<Rightarrow> (Threw e, h)
     | Ok keys \<Rightarrow>
         (case forEach keys (merge_key w (merge w n) obj src) h of
            (Threw e, h') \<Rightarrow> (Threw e, h')
          | (Ok u, h') \<Rightarrow> (Ok obj, h')))"


section \<open>The module's state\<close>

text \<open>
  The module-level variables \<^verbatim>\<open>config\<close> (line 5, \<^verbatim>\<open>undefined\<close> until the first
  use) and \<^verbatim>\<open>fileCache\<close> (line 6, a reference to one object literal), the heap, and a
  log of what the module did to the outside: the files it asked \<^verbatim>\<open>require\<close> and
  \<^verbatim>\<open>fs.readFileSync\<close> for, and the lines it wrote with \<^verbatim>\<open>console.error\<close>
  (of a line, the text up to the name or key it mentions).
\<close>

datatype event =
    Required string
  | FileRead jsval
  | ConsoleError string

record state =
  objects :: heap
  config :: jsval
  fileCache :: jsval
  events :: "event list"

definition on_heap :: "(heap \<Rightarrow> 'a result \<times> heap) \<Rightarrow> state \<Rightarrow> 'a result \<times> state" where
  "on_heap m s = (case m (objects s) of (r, h') \<Rightarrow> (r, s\<lparr>objects := h'\<rparr>))"

definition emit :: "event \<Rightarrow> state \<Rightarrow> unit result \<times> state" where
  "emit ev s = (Ok (), s\<lparr>events := events s @ [ev]\<rparr>)"

text \<open>The options object of \<^verbatim>\<open>cfg.file\<close>; a missing option is \<^verbatim>\<open>undefined\<close>.\<close>

record file_options =
  overwrite :: jsval
  ignoreNotFound :: jsval
  ignoreErrors :: jsval

definition no_options :: file_options where
  "no_options = \<lparr>overwrite = VUndefined, ignoreNotFound = VUndefined, ignoreErrors = VUndefined\<rparr>"

definition ignore_not_found :: file_options where
  "ignore_not_found = \<lparr>overwrite = VUndefined, ignoreNotFound = VBool True, ignoreErrors = VUndefined\<rparr>"

subsection \<open>The environment (lines 8 and 299)\<close>

definition env_var :: "world \<Rightarrow> string \<Rightarrow> jsval" where
  "env_var w name = (case map_of (process_env w) name of None \<Rightarrow> VUndefined | Some v \<Rightarrow> VStr v)"

definition env :: "world \<Rightarrow> string" where
  "env w = (case env_var w ''NODE_ENV'' of VStr v \<Rightarrow> if v = [] then ''development'' else v
            | _ \<Rightarrow> ''development'')"

definition isCI :: "world \<Rightarrow> bool" where
  "isCI w = truthy (env_var w ''CI'')"

definition isProduction :: "world \<Rightarrow> bool" where
  "isProduction w = (env w = ''production'')"

definition isStaging :: "world \<Rightarrow> bool" where
  "isStaging w = (env w = ''staging'')"

definition isProductionLike :: "world \<Rightarrow> bool" where
  "isProductionLike w = (env w = ''production'' \<or> env w = ''staging'')"

definition isTest :: "world \<Rightarrow> bool" where
  "isTest w = (env w = ''test'')"

definition isDev :: "world \<Rightarrow> bool" where
  "isDev w = (env w \<noteq> ''production'' \<and> env w \<noteq> ''staging'')"

definition env_key :: "world \<Rightarrow> string" where
  "env_key w = ''$env_'' @ env w"

subsection \<open>The public operations, over a given initialiser\<close>

text \<open>
  \<^verbatim>\<open>cfg\<close>, \<^verbatim>\<open>cfg.set\<close>, \<^verbatim>\<open>cfg.merge\<close>, \<^verbatim>\<open>cfg.assign\<close> and \<^verbatim>\<open>cfg.delete\<close> call
  \<^verbatim>\<open>readDefaultConfigFiles\<close> first, and \<^verbatim>\<open>readDefaultConfigFiles\<close> calls
  \<^verbatim>\<open>cfg.file\<close> and \<^verbatim>\<open>cfg.set\<close>. The cycle is cut at the call stack: each operation
  is written over the initialiser \<open>init\<close> it calls, and \<^verbatim>\<open>readDefaultConfigFiles\<close>
  below hands its callees itself with one frame less.
\<close>

definition cfg_using ::
  "(state \<Rightarrow> unit result \<times> state) \<Rightarrow> world \<Rightarrow> jsval \<Rightarrow> jsval \<Rightarrow> state \<Rightarrow> jsval result \<times> state" where
  "cfg_using init w key defaultValue =
     js_bind init (\<lambda>u s. on_heap (lodash_get w (config s) key defaultValue) s)"

text \<open>The three steps of lines 132 to 134 and 173 to 175.\<close>

definition assign_steps :: "world \<Rightarrow> jsval \<Rightarrow> state \<Rightarrow> unit result \<times> state" where
  "assign_steps w obj =
     js_bind (\<lambda>s. on_heap (object_assign w (config s) obj) s)
       (\<lambda>u. js_bind (on_heap (js_get w obj (env_key w)))
         (\<lambda>e. js_bind (\<lambda>s. on_heap (object_assign w (config s) e) s)
           (\<lambda>u. if isCI w
                then js_bind (on_heap (js_get w obj ''$env_CI''))
                       (\<lambda>c s. on_heap (object_assign w (config s) c) s)
                else js_ret ())))"

text \<open>The three steps of lines 155 to 157; \<open>n\<close> is the call stack left for \<^verbatim>\<open>merge\<close>.\<close>

definition merge_into_config :: "world \<Rightarrow> nat \<Rightarrow> jsval \<Rightarrow> state \<Rightarrow> unit result \<times> state" where
  "merge_into_config w n src =
     js_bind (\<lambda>s. on_heap (merge w n (config s) src) s) (\<lambda>r. js_ret ())"

definition merge_first_two :: "world \<Rightarrow> nat \<Rightarrow> jsval \<Rightarrow> state \<Rightarrow> unit result \<times> state" where
  "merge_first_two w n obj =
     js_bind (merge_into_config w n obj)
       (\<lambda>u. js_bind (on_heap (js_get w obj (env_key w))) (\<lambda>e. merge_into_config w n e))"

definition merge_third :: "world \<Rightarrow> nat \<Rightarrow> jsval \<Rightarrow> state \<Rightarrow> unit result \<times> state" where
  "merge_third w n obj =
     (if isCI w
      then js_bind (on_heap (js_get w obj ''$env_CI'')) (\<lambda>c. merge_into_config w n c)
      else js_ret ())"

definition merge_steps :: "world \<Rightarrow> nat \<Rightarrow> jsval \<Rightarrow> state \<Rightarrow> unit result \<times> state" where
  "merge_steps w n obj = js_bind (merge_first_two w n obj) (\<lambda>u. merge_third w n obj)"

definition cfg_set_using ::
  "(state \<Rightarrow> unit result \<times> state) \<Rightarrow> world \<Rightarrow> jsval \<Rightarrow> jsval \<Rightarrow> state \<Rightarrow> jsval result \<times> state" where
  "cfg_set_using init w key val =
     js_bind init (\<lambda>u s.
       if val = VUndefined \<and> instanceof_Object (objects s) key
       then js_bind (assign_steps w key) (\<lambda>u. js_ret VNull) s
       else js_bind (\<lambda>s. on_heap (lodash_get w (config s) key VUndefined) s)
              (\<lambda>prev. js_bind (\<lambda>s. on_heap (lodash_set w (config s) key val) s)
                (\<lambda>r. js_ret prev)) s)"

definition cfg_merge_using ::
  "(state \<Rightarrow> unit result \<times> state) \<Rightarrow> world \<Rightarrow> nat \<Rightarrow> jsval \<Rightarrow> state \<Rightarrow> unit result \<times> state" where
  "cfg_merge_using init w n obj =
     js_bind init (\<lambda>u s.
       if instanceof_Object (objects s) obj then merge_steps w n obj s else (Ok (), s))"

definition cfg_assign_using ::
  "(state \<Rightarrow> unit result \<times> state) \<Rightarrow> world \<Rightarrow> jsval \<Rightarrow> state \<Rightarrow> unit result \<times> state" where
  "cfg_assign_using init w obj =
     js_bind init (\<lambda>u s.
       if instanceof_Object (objects s) obj then assign_steps w obj s else (Ok (), s))"


text \<open>
  \<^verbatim>\<open>cfg.file\<close> (lines 198 to 225). \<^verbatim>\<open>path.isAbsolute\<close> throws a \<^verbatim>\<open>TypeError\<close> for
  an argument that is not a string. The \<^verbatim>\<open>try\<close> block holds the \<^verbatim>\<open>require\<close> and
  what is done with the loaded value, so a throw of the merge is handled like a throw
  of the load.
\<close>

definition load_and_apply ::
  "(state \<Rightarrow> unit result \<times> state) \<Rightarrow> world \<Rightarrow> nat \<Rightarrow> string \<Rightarrow> file_options \<Rightarrow> state
     \<Rightarrow> unit result \<times> state" where
  "load_and_apply init w n file options =
     js_bind (emit (Required file))
       (\<lambda>u. js_bind (on_heap (require_module w file))
         (\<lambda>data s.
            if overwrite options = VBool True \<and> typeof (objects s) data = ''object''
            then (Ok (), s\<lparr>config := data\<rparr>)
            else cfg_merge_using init w n data s))"

definition cfg_file_using ::
  "(state \<Rightarrow> unit result \<times> state) \<Rightarrow> world \<Rightarrow> nat \<Rightarrow> jsval \<Rightarrow> file_options \<Rightarrow> state
     \<Rightarrow> unit result \<times> state" where
  "cfg_file_using init w n file options s =
     (case file of
        VStr p \<Rightarrow>
          if \<not> path_isAbsolute w p
          then (Threw (PlainError ''Only absolute paths are allowed''), s)
          else (case load_and_apply init w n p options s of
                  (Ok u, s') \<Rightarrow> (Ok (), s')
                | (Threw e, s') \<Rightarrow>
                    if e = ModuleNotFound \<and> truthy (ignoreNotFound options) then (Ok (), s')
                    else if truthy (ignoreErrors options) then (Ok (), s')
                    else (Threw e, s'))
      | _ \<Rightarrow> (Threw TypeError, s))"

subsection \<open>Environment variables (lines 66 to 81)\<close>

text \<open>\<^verbatim>\<open>s.split('__')\<close> and \<^verbatim>\<open>xs.join('.')\<close>.\<close>

fun split_dunder :: "string \<Rightarrow> string \<Rightarrow> string list" where
  "split_dunder cur [] = [cur]"
| "split_dunder cur [c] = [cur @ [c]]"
| "split_dunder cur (c # d # cs) =
     (if c = CHR ''_'' \<and> d = CHR ''_'' then cur # split_dunder [] cs
      else split_dunder (cur @ [c]) (d # cs))"

fun join_dot :: "string list \<Rightarrow> string" where
  "join_dot [] = []"
| "join_dot [x] = x"
| "join_dot (x # y # ys) = x @ ''.'' @ join_dot (y # ys)"

definition starts_with :: "string \<Rightarrow> string \<Rightarrow> bool" where
  "starts_with pre s = (take (length pre) s = pre)"

definition env_key_path :: "world \<Rightarrow> string \<Rightarrow> string" where
  "env_key_path w name = join_dot (map (lodash_camelCase w) (split_dunder [] (drop 5 name)))"

text \<open>
  Lines 70 to 78: the value handed to \<^verbatim>\<open>cfg.set\<close>. When \<^verbatim>\<open>JSON.parse\<close> throws,
  the \<^verbatim>\<open>catch\<close> block only logs, and \<^verbatim>\<open>envVal\<close> keeps the string it was given.
\<close>

definition env_value :: "world \<Rightarrow> string \<Rightarrow> state \<Rightarrow> jsval result \<times> state" where
  "env_value w name s =
     (case env_var w name of
        VStr raw \<Rightarrow>
          if raw \<noteq> [] \<and> starts_with ''@JSON:'' raw
          then (case on_heap (json_parse w (drop 6 raw)) s of
                  (Ok parsed, s') \<Rightarrow> (Ok parsed, s')
                | (Threw e, s') \<Rightarrow>
                    js_bind
                      (emit (ConsoleError (''Error while parsing JSON value of env variable '' @ name)))
                      (\<lambda>u. js_ret (VStr raw)) s')
          else (Ok (VStr raw), s)
      | v \<Rightarrow> (Ok v, s))"

definition read_env_variable ::
  "(state \<Rightarrow> unit result \<times> state) \<Rightarrow> world \<Rightarrow> string \<Rightarrow> state \<Rightarrow> unit result \<times> state" where
  "read_env_variable init w name =
     js_bind (env_value w name)
       (\<lambda>envVal. js_bind (cfg_set_using init w (VStr (env_key_path w name)) envVal)
         (\<lambda>prev. js_ret ()))"

definition readEnvVariables ::
  "(state \<Rightarrow> unit result \<times> state) \<Rightarrow> world \<Rightarrow> state \<Rightarrow> unit result \<times> state" where
  "readEnvVariables init w =
     forEach (filter (starts_with ''CFG__'') (map fst (process_env w))) (read_env_variable init w)"

subsection \<open>The default sources (lines 83 to 101)\<close>

definition new_config :: "state \<Rightarrow> unit result \<times> state" where
  "new_config s =
     (case alloc (objects s) empty_object of
        (a, h') \<Rightarrow> (Ok (), s\<lparr>objects := h', config := VRef a\<rparr>))"

definition when_CI :: "world \<Rightarrow> (state \<Rightarrow> unit result \<times> state) \<Rightarrow> state \<Rightarrow> unit result \<times> state" where
  "when_CI w m = (if isCI w then m else js_ret ())"

definition private_config_file ::
  "(state \<Rightarrow> unit result \<times> state) \<Rightarrow> world \<Rightarrow> nat \<Rightarrow> state \<Rightarrow> unit result \<times> state" where
  "private_config_file init w n =
     js_bind (\<lambda>s. on_heap (js_get w (config s) ''$privateConfigFile'') s)
       (\<lambda>present.
          if truthy present
          then js_bind (\<lambda>s. on_heap (js_get w (config s) ''$privateConfigFile'') s)
                 (\<lambda>file. cfg_file_using init w n file ignore_not_found)
          else js_ret ())"

definition default_sequence ::
  "(state \<Rightarrow> unit result \<times> state) \<Rightarrow> world \<Rightarrow> nat \<Rightarrow> state \<Rightarrow> unit result \<times> state" where
  "default_sequence init w n =
     (let cwd = process_cwd w;
          privatePath = path_join w cwd ''private'';
          file = (\<lambda>p. cfg_file_using init w n (VStr p) ignore_not_found)
      in js_bind new_config
        (\<lambda>u. js_bind (file (path_join w cwd ''config.js''))
        (\<lambda>u. js_bind (file (path_join w cwd (''config.'' @ env w @ ''.js'')))
        (\<lambda>u. js_bind (when_CI w (file (path_join w cwd ''config.CI.js'')))
        (\<lambda>u. js_bind (file (path_join w privatePath ''config.js''))
        (\<lambda>u. js_bind (file (path_join w privatePath (''config.'' @ env w @ ''.js'')))
        (\<lambda>u. js_bind (when_CI w (file (path_join w privatePath ''config.CI.js'')))
        (\<lambda>u. js_bind (private_config_file init w n)
        (\<lambda>u. readEnvVariables init w)))))))))"

text \<open>
  \<^verbatim>\<open>readDefaultConfigFiles\<close>; the second argument is the depth of call stack left.
\<close>

primrec readDefaultConfigFiles :: "world \<Rightarrow> nat \<Rightarrow> state \<Rightarrow> unit result \<times> state" where
  "readDefaultConfigFiles w 0 = (\<lambda>s. (Threw RangeError, s))"
| "readDefaultConfigFiles w (Suc n) = (\<lambda>s.
     if truthy (config s) then (Ok (), s)
     else default_sequence (readDefaultConfigFiles w n) w n s)"

subsection \<open>The public operations\<close>

definition cfg :: "world \<Rightarrow> nat \<Rightarrow> jsval \<Rightarrow> jsval \<Rightarrow> state \<Rightarrow> jsval result \<times> state" where
  "cfg w n = cfg_using (readDefaultConfigFiles w n) w"

definition cfg_get :: "world \<Rightarrow> nat \<Rightarrow> jsval \<Rightarrow> jsval \<Rightarrow> state \<Rightarrow> jsval result \<times> state" where
  "cfg_get w n key defaultValue = cfg w n key defaultValue"


definition cfg_set :: "world \<Rightarrow> nat \<Rightarrow> jsval \<Rightarrow> jsval \<Rightarrow> state \<Rightarrow> jsval result \<times> state" where
  "cfg_set w n = cfg_set_using (readDefaultConfigFiles w n) w"

definition cfg_merge :: "world \<Rightarrow> nat \<Rightarrow> jsval \<Rightarrow> state \<Rightarrow> unit result \<times> state" where
  "cfg_merge w n = cfg_merge_using (readDefaultConfigFiles w n) w n"

definition cfg_assign :: "world \<Rightarrow> nat \<Rightarrow> jsval \<Rightarrow> state \<Rightarrow> unit result \<times> state" where
  "cfg_assign w n = cfg_assign_using (readDefaultConfigFiles w n) w"


definition cfg_file :: "world \<Rightarrow> nat \<Rightarrow> jsval \<Rightarrow> file_options \<Rightarrow> state \<Rightarrow> unit result \<times> state" where
  "cfg_file w n = cfg_file_using (readDefaultConfigFiles w n) w n"

text \<open>
  \<^verbatim>\<open>cfg.read\<close> (lines 233 to 252). The \<^verbatim>\<open>try\<close> block holds the read and the
  assignment to the cache; the \<^verbatim>\<open>catch\<close> block only logs.
\<close>

definition read_into_cache :: "world \<Rightarrow> string \<Rightarrow> jsval \<Rightarrow> state \<Rightarrow> unit result \<times> state" where
  "read_into_cache w key filePath s =
     (case js_bind (emit (FileRead filePath))
             (\<lambda>u. js_bind (on_heap (readFileSync w filePath))
               (\<lambda>bytes s. on_heap (put_sloppy w (fileCache s) key bytes) s)) s of
        (Ok u, s') \<Rightarrow> (Ok (), s')
      | (Threw e, s') \<Rightarrow> emit (ConsoleError (''[cfg] can't read file '' @ key)) s')"

definition cfg_read :: "world \<Rightarrow> nat \<Rightarrow> string \<Rightarrow> state \<Rightarrow> jsval result \<times> state" where
  "cfg_read w n key s =
     (if has_property (objects s) (fileCache s) key
      then on_heap (js_get w (fileCache s) key) s
      else js_bind (cfg w n (VStr key) VUndefined)
             (\<lambda>filePath. js_bind
                (if \<not> truthy filePath
                 then (\<lambda>s. on_heap (put_sloppy w (fileCache s) key VUndefined) s)
                 else read_into_cache w key filePath)
                (\<lambda>u s. on_heap (js_get w (fileCache s) key) s)) s)"


section \<open>A fresh process\<close>

text \<open>
  The heap when the module has just been loaded: \<^verbatim>\<open>Object.prototype\<close> with its
  standard members at address 0, the object literal of \<^verbatim>\<open>fileCache\<close> at address 1,
  and the built-in functions that \<^verbatim>\<open>Object.prototype\<close> refers to at the addresses
  from 2 on (\<^verbatim>\<open>Function.prototype\<close> is left out of their chain).
\<close>

definition builtin_function :: obj where
  "builtin_function =
     \<lparr>cls = ''Function'', proto = VRef object_prototype, extensible = True, props = []\<rparr>"

definition object_prototype_obj :: obj where
  "object_prototype_obj =
     \<lparr>cls = ''Object'', proto = VNull, extensible = True,
      props =
        [(''constructor'', Data (VRef 2) True False True),
         (''__defineGetter__'', Data (VRef 3) True False True),
         (''__defineSetter__'', Data (VRef 4) True False True),
         (''hasOwnProperty'', Data (VRef 5) True False True),
         (''__lookupGetter__'', Data (VRef 6) True False True),
         (''__lookupSetter__'', Data (VRef 7) True False True),
         (''isPrototypeOf'', Data (VRef 8) True False True),
         (''propertyIsEnumerable'', Data (VRef 9) True False True),
         (''toString'', Data (VRef 10) True False True),
         (''valueOf'', Data (VRef 11) True False True),
         (''__proto__'', Accessor (VRef 12) (VRef 13) False True),
         (''toLocaleString'', Data (VRef 14) True False True)]\<rparr>"

definition initial_heap :: heap where
  "initial_heap = object_prototype_obj # empty_object # replicate 13 builtin_function"

definition initial_state :: state where
  "initial_state =
     \<lparr>objects = initial_heap, config = VUndefined, fileCache = VRef 1, events = []\<rparr>"

section \<open>A small world to run the operations in\<close>

text \<open>
  Stand-ins for the foreign functions, used only to run the operations on concrete
  inputs. The theorems below hold for every world; these definitions instantiate them.
  Paths are POSIX paths. A user function returns the number of its own address.
  \<^verbatim>\<open>JSON.parse\<close> knows decimal numerals and throws on everything else.
  \<^verbatim>\<open>fs.readFileSync\<close> gives a fresh buffer object for a file it has.
  The stand-ins of \<^verbatim>\<open>_.get\<close> and \<^verbatim>\<open>_.set\<close> follow own data properties along a
  dotted path, and \<^verbatim>\<open>_.set\<close> makes the object literals that are missing on the way.
\<close>

definition posix_isAbsolute :: "string \<Rightarrow> bool" where
  "posix_isAbsolute p = (case p of [] \<Rightarrow> False | c # cs \<Rightarrow> c = CHR ''/'')"

definition posix_join :: "string \<Rightarrow> string \<Rightarrow> string" where
  "posix_join a b = a @ ''/'' @ b"

definition example_call :: "jsval \<Rightarrow> jsval \<Rightarrow> jsval list \<Rightarrow> heap \<Rightarrow> jsval result \<times> heap" where
  "example_call f this args h =
     (case f of VRef a \<Rightarrow> (Ok (VNum (int a)), h) | _ \<Rightarrow> (Threw TypeError, h))"

definition example_require :: "(string \<times> jsval) list \<Rightarrow> string \<Rightarrow> heap \<Rightarrow> jsval result \<times> heap" where
  "example_require modules p h =
     (case map_of modules p of None \<Rightarrow> (Threw ModuleNotFound, h) | Some v \<Rightarrow> (Ok v, h))"

definition buffer_object :: "nat list \<Rightarrow> obj" where
  "buffer_object bytes =
     \<lparr>cls = ''Uint8Array'', proto = VRef object_prototype, extensible = True,
      props = map (\<lambda>i. (string_of_nat i, Data (VNum (int (bytes ! i))) True True True))
                [0..<length bytes]\<rparr>"

definition example_readFileSync ::
  "(string \<times> nat list) list \<Rightarrow> jsval \<Rightarrow> heap \<Rightarrow> jsval result \<times> heap" where
  "example_readFileSync files v h =
     (case v of
        VStr p \<Rightarrow>
          (case map_of files p of
             None \<Rightarrow> (Threw (Thrown (VStr ''ENOENT'')), h)
           | Some bytes \<Rightarrow> (case alloc h (buffer_object bytes) of (a, h') \<Rightarrow> (Ok (VRef a), h')))
      | _ \<Rightarrow> (Threw TypeError, h))"

definition example_json_parse :: "string \<Rightarrow> heap \<Rightarrow> jsval result \<times> heap" where
  "example_json_parse s h =
     (if s \<noteq> [] \<and> list_all is_digit s then (Ok (VNum (int (nat_of_digits s))), h)
      else (Threw (Thrown (VStr ''SyntaxError'')), h))"

definition lower_char :: "char \<Rightarrow> char" where
  "lower_char c =
     (if 65 \<le> (of_char c :: nat) \<and> (of_char c :: nat) \<le> 90 then char_of ((of_char c :: nat) + 32)
      else c)"

definition upper_char :: "char \<Rightarrow> char" where
  "upper_char c =
     (if 97 \<le> (of_char c :: nat) \<and> (of_char c :: nat) \<le> 122 then char_of ((of_char c :: nat) - 32)
      else c)"

fun camel_words :: "bool \<Rightarrow> string \<Rightarrow> string" where
  "camel_words up [] = []"
| "camel_words up (c # cs) =
     (if c = CHR ''_'' then camel_words True cs
      else (if up then upper_char c else lower_char c) # camel_words False cs)"

definition example_camelCase :: "string \<Rightarrow> string" where
  "example_camelCase s = camel_words False (dropWhile (\<lambda>c. c = CHR ''_'') s)"

fun split_dot :: "string \<Rightarrow> string \<Rightarrow> string list" where
  "split_dot cur [] = [cur]"
| "split_dot cur (c # cs) =
     (if c = CHR ''.'' then cur # split_dot [] cs else split_dot (cur @ [c]) cs)"

fun walk_path :: "heap \<Rightarrow> jsval \<Rightarrow> string list \<Rightarrow> jsval" where
  "walk_path h v [] = v"
| "walk_path h v (k # ks) =
     (case own_property h v k of
        None \<Rightarrow> VUndefined
      | Some p \<Rightarrow> walk_path h (desc_value p) ks)"

definition dotted_get :: "jsval \<Rightarrow> jsval \<Rightarrow> jsval \<Rightarrow> heap \<Rightarrow> jsval result \<times> heap" where
  "dotted_get v path dflt h =
     (case path of
        VStr p \<Rightarrow>
          (let x = walk_path h v (split_dot [] p) in (Ok (if x = VUndefined then dflt else x), h))
      | _ \<Rightarrow> (Ok dflt, h))"

definition write_own :: "heap \<Rightarrow> addr \<Rightarrow> string \<Rightarrow> jsval \<Rightarrow> heap" where
  "write_own h a k x =
     (case lookup h a of
        None \<Rightarrow> h
      | Some ob \<Rightarrow>
          store h a
            (ob\<lparr>props :=
                 (case map_of (props ob) k of
                    None \<Rightarrow> insert_prop k (Data x True True True) (props ob)
                  | Some p \<Rightarrow> replace_prop k (Data x True True True) (props ob))\<rparr>))"

fun set_path :: "heap \<Rightarrow> addr \<Rightarrow> string list \<Rightarrow> jsval \<Rightarrow> heap" where
  "set_path h a [] x = h"
| "set_path h a [k] x = write_own h a k x"
| "set_path h a (k # k' # ks) x =
     (case own_property h (VRef a) k of
        Some (Data (VRef b) wr e c) \<Rightarrow> set_path h b (k' # ks) x
      | _ \<Rightarrow>
          (case alloc h empty_object of
             (b, h') \<Rightarrow> set_path (write_own h' a k (VRef b)) b (k' # ks) x))"

definition dotted_set :: "jsval \<Rightarrow> jsval \<Rightarrow> jsval \<Rightarrow> heap \<Rightarrow> jsval result \<times> heap" where
  "dotted_set v path x h =
     (case (v, path) of
        (VRef a, VStr p) \<Rightarrow> (Ok v, set_path h a (split_dot [] p) x)
      | _ \<Rightarrow> (Ok v, h))"

definition example_world ::
  "(string \<times> jsval) list \<Rightarrow> (string \<times> nat list) list \<Rightarrow> (string \<times> string) list \<Rightarrow> world" where
  "example_world modules files vars =
     \<lparr>call_fn = example_call,
      require_module = example_require modules,
      readFileSync = example_readFileSync files,
      json_parse = example_json_parse,
      lodash_get = dotted_get,
      lodash_set = dotted_set,
      lodash_camelCase = example_camelCase,
      path_isAbsolute = posix_isAbsolute,
      path_join = posix_join,
      process_env = vars,
      process_cwd = ''/app''\<rparr>"

section \<open>Claims as they are worded, and inputs to run them on\<close>

subsection \<open>C3: the value of a tagged variable\<close>

text \<open>
  The value of a variable as C3 words it: when the text after the tag does not parse,
  an error is logged and the value is the string with the tag removed.
\<close>

definition claimed_env_value :: "world \<Rightarrow> string \<Rightarrow> state \<Rightarrow> jsval result \<times> state" where
  "claimed_env_value w name s =
     (case env_var w name of
        VStr raw \<Rightarrow>
          if raw \<noteq> [] \<and> starts_with ''@JSON:'' raw
          then (case on_heap (json_parse w (drop 6 raw)) s of
                  (Ok parsed, s') \<Rightarrow> (Ok parsed, s')
                | (Threw e, s') \<Rightarrow>
                    js_bind
                      (emit (ConsoleError (''Error while parsing JSON value of env variable '' @ name)))
                      (\<lambda>u. js_ret (VStr (drop 6 raw))) s')
          else (Ok (VStr raw), s)
      | v \<Rightarrow> (Ok v, s))"

definition env_world :: world where
  "env_world =
     example_world [] []
       [(''CFG__X'', ''@JSON:{bad''), (''CFG__FOO__BAR_BAZ'', ''5''), (''CFG__N'', ''@JSON:17'')]"

subsection \<open>C1, C2: plain mappings\<close>


subsection \<open>C2: a file that exports an array\<close>


definition array_object :: obj where
  "array_object =
     \<lparr>cls = ''Array'', proto = VRef object_prototype, extensible = True,
      props = [(''0'', Data (VNum 7) True True True), (''length'', Data (VNum 1) True False False)]\<rparr>"

text \<open>A process whose tree is the empty object at address 16, with an array at 15.\<close>

definition array_state :: state where
  "array_state =
     \<lparr>objects = initial_heap @ [array_object, empty_object], config = VRef 16,
      fileCache = VRef 1, events = []\<rparr>"

definition array_world :: world where
  "array_world = example_world [(''/app/list.js'', VRef 15)] [] []"


subsection \<open>C4, C9: reading files by key\<close>

text \<open>
  A process whose tree, at address 15, names a file that exists under the keys
  \<^verbatim>\<open>cert\<close> and \<^verbatim>\<open>constructor\<close> and a file that does not exist under the key
  \<^verbatim>\<open>gone\<close>.
\<close>

definition read_state :: state where
  "read_state =
     \<lparr>objects = initial_heap @
        [\<lparr>cls = ''Object'', proto = VRef object_prototype, extensible = True,
          props = [(''cert'', Data (VStr ''/data/cert.pem'') True True True),
                   (''gone'', Data (VStr ''/data/none'') True True True),
                   (''constructor'', Data (VStr ''/data/cert.pem'') True True True)]\<rparr>],
      config = VRef 15, fileCache = VRef 1, events = []\<rparr>"

definition read_world :: world where
  "read_world = example_world [] [(''/data/cert.pem'', [45, 45, 10])] []"

subsection \<open>C1: when merge descends\<close>







definition plain_world :: world where
  "plain_world = example_world [] [] []"

subsection \<open>C10: an object with a getter\<close>


subsection \<open>C6: the override for CI\<close>






subsection \<open>C5: the default sources\<close>



definition extends :: "(state \<Rightarrow> 'a result \<times> state) \<Rightarrow> bool" where
  "extends m =
     (\<forall>s. truthy (config s) \<longrightarrow>
        (\<exists>r h es. m s = (r, s\<lparr>objects := h, events := events s @ es\<rparr>)))"



section \<open>Basic facts\<close>

declare string_of_nat.simps [simp del]

declare own_property.simps [simp del]

declare merge.simps [simp del]

declare readDefaultConfigFiles.simps [simp del]

lemma js_bind_simps [simp]:
  "js_bind (js_ret x) f s = f x s"
  "js_bind (js_throw e) f s = (Threw e, s)"
  by (simp_all add: js_bind_def js_ret_def js_throw_def)

subsection \<open>The heap and the property lists\<close>

lemma lookup_store:
  "lookup (store h a ob) a' = (if a' = a \<and> a < length h then Some ob else lookup h a')"
  by (simp add: lookup_def store_def)

lemma length_store [simp]: "length (store h a ob) = length h"
  by (simp add: store_def)

lemma lookup_Some_less: "lookup h a = Some ob \<Longrightarrow> a < length h"
  by (simp add: lookup_def split: if_splits)


lemma map_of_insert_prop_same:
  "map_of ps k = None \<Longrightarrow> map_of (insert_prop k p ps) k = Some p"
  by (induction ps) (auto split: if_splits)



lemma find_prop_own:
  "lookup h a = Some ob \<Longrightarrow> map_of (props ob) k = Some p \<Longrightarrow>
   find_prop (Suc n) h (VRef a) k = Some p"
  by simp

lemma find_prop_inherited:
  "lookup h a = Some ob \<Longrightarrow> map_of (props ob) k = None \<Longrightarrow>
   find_prop (Suc n) h (VRef a) k = find_prop n h (proto ob) k"
  by simp

lemma js_get_own_data:
  assumes "lookup h a = Some ob" and "map_of (props ob) k = Some (Data x wr e c)"
  shows "js_get w (VRef a) k h = (Ok x, h)"
  using assms by (simp add: js_get_def is_nullish_def)

lemma has_property_own:
  assumes "lookup h a = Some ob" and "map_of (props ob) k = Some p"
  shows "has_property h (VRef a) k"
  using assms by (simp add: has_property_def)

text \<open>
  A write of a key that the object and its prototypes do not have makes an own data
  property, when the object is extensible.
\<close>

lemma ordinary_set_new_key:
  assumes "lookup h a = Some ob" and "extensible ob"
    and "\<not> has_property h (VRef a) k"
  shows "ordinary_set w (VRef a) k x h =
           (Ok True, store h a (ob\<lparr>props := insert_prop k (Data x True True True) (props ob)\<rparr>))"
proof -
  from assms(1,3) have own: "map_of (props ob) k = None"
    by (cases "map_of (props ob) k") (auto simp: has_property_def)
  with assms(1,3) have "find_prop (length h) h (proto ob) k = None"
    by (simp add: has_property_def)
  with assms(1,2) own show ?thesis
    by (simp add: ordinary_set_def is_nullish_def create_data_property_def)
qed

subsection \<open>Defining a property\<close>




text \<open>When it throws, it throws a \<^verbatim>\<open>TypeError\<close> and changes nothing.\<close>

lemma defineProperty_throws:
  assumes "defineProperty v k p h = (Threw e, h')"
  shows "e = TypeError \<and> h' = h"
  using assms
  by (auto simp: defineProperty_def split: jsval.splits option.splits if_splits)

subsection \<open>Reading through a getter, writing to an own property\<close>






subsection \<open>Computations that keep the variables\<close>















lemma extends_emit: "extends (emit ev)"
  unfolding extends_def emit_def
proof (intro allI impI)
  fix s :: state
  have "(Ok (), s\<lparr>events := events s @ [ev]\<rparr>) =
        (Ok (), s\<lparr>objects := objects s, events := events s @ [ev]\<rparr>)"
    by simp
  then show "\<exists>r h es. (Ok (), s\<lparr>events := events s @ [ev]\<rparr>) =
               (r, s\<lparr>objects := h, events := events s @ es\<rparr>)"
    by blast
qed

section \<open>Relative paths are refused (C8)\<close>

text \<open>
  C8. For every path string that \<^verbatim>\<open>path.isAbsolute\<close> rejects, \<^verbatim>\<open>cfg.file\<close> throws
  the error \<^verbatim>\<open>Only absolute paths are allowed\<close>, whatever the options and the call
  stack, and leaves the whole state as it was: the tree, the heap and the log, which
  therefore holds no request of a load.
\<close>

theorem cfg_file_relative_path:
  assumes "\<not> path_isAbsolute w p"
  shows "cfg_file w n (VStr p) options s =
           (Threw (PlainError ''Only absolute paths are allowed''), s)"
  using assms by (simp add: cfg_file_def cfg_file_using_def)

theorem cfg_file_relative_path_witness:
  "\<not> path_isAbsolute (example_world [] [] []) ''relative/path.js'' \<and>
   cfg_file (example_world [] [] []) 3 (VStr ''relative/path.js'') no_options initial_state =
     (Threw (PlainError ''Only absolute paths are allowed''), initial_state)"
proof -
  have rel: "\<not> path_isAbsolute (example_world [] [] []) ''relative/path.js''"
    by (simp add: example_world_def posix_isAbsolute_def)
  show ?thesis
    using rel cfg_file_relative_path [OF rel, of 3 no_options initial_state] by simp
qed

section \<open>Environment variables (C3)\<close>

text \<open>
  C3, as the code has it. For a variable whose value is the string \<open>raw\<close>, the
  callback of line 68 hands \<^verbatim>\<open>cfg.set\<close> the key path derived from the name and: the
  parsed value when \<open>raw\<close> starts with \<^verbatim>\<open>@JSON:\<close> and the rest parses; the whole
  string \<open>raw\<close>, tag included, after logging an error, when the rest does not parse; the
  string \<open>raw\<close> when there is no tag.
\<close>

theorem read_env_variable_value:
  assumes "env_var w name = VStr raw"
  shows "read_env_variable init w name s =
           (let store = (\<lambda>v. js_bind (cfg_set_using init w (VStr (env_key_path w name)) v)
                                (\<lambda>prev. js_ret ()))
            in if raw \<noteq> [] \<and> starts_with ''@JSON:'' raw
               then (case json_parse w (drop 6 raw) (objects s) of
                       (Ok parsed, h') \<Rightarrow> store parsed (s\<lparr>objects := h'\<rparr>)
                     | (Threw e, h') \<Rightarrow>
                         store (VStr raw)
                           (s\<lparr>objects := h',
                              events := events s @
                                [ConsoleError (''Error while parsing JSON value of env variable '' @ name)]\<rparr>))
               else store (VStr raw) s)"
  using assms
  by (simp add: read_env_variable_def env_value_def js_bind_def js_ret_def emit_def on_heap_def
      split: prod.splits result.splits)

theorem read_env_variable_value_witness:
  "env_var env_world ''CFG__X'' = VStr ''@JSON:{bad'' \<and>
   read_env_variable (js_ret ()) env_world ''CFG__X'' initial_state =
     js_bind (cfg_set_using (js_ret ()) env_world (VStr ''x'') (VStr ''@JSON:{bad''))
       (\<lambda>prev. js_ret ())
       (initial_state\<lparr>events :=
          [ConsoleError ''Error while parsing JSON value of env variable CFG__X'']\<rparr>)"
proof -
  have v: "env_var env_world ''CFG__X'' = VStr ''@JSON:{bad''"
    by (simp add: env_world_def example_world_def env_var_def)
  have k: "env_key_path env_world ''CFG__X'' = ''x''"
    by code_simp
  have p: "json_parse env_world ''{bad'' (objects initial_state) =
             (Threw (Thrown (VStr ''SyntaxError'')), objects initial_state)"
    by code_simp
  have e: "events initial_state = []"
    by (simp add: initial_state_def)
  show ?thesis
    using v read_env_variable_value [OF v, of "js_ret ()" initial_state] k p e
    by (simp add: starts_with_def)
qed

text \<open>
  C3 as worded fails: the variable \<^verbatim>\<open>CFG__X=@JSON:{bad\<close> gets the value
  \<^verbatim>\<open>@JSON:{bad\<close>, not \<^verbatim>\<open>{bad\<close>, and that is what a fresh process then reads at
  \<^verbatim>\<open>x\<close>.
\<close>

theorem env_value_keeps_tag:
  "fst (env_value env_world ''CFG__X'' initial_state) = Ok (VStr ''@JSON:{bad'') \<and>
   fst (claimed_env_value env_world ''CFG__X'' initial_state) = Ok (VStr ''{bad'') \<and>
   fst (cfg env_world 3 (VStr ''x'') VUndefined initial_state) = Ok (VStr ''@JSON:{bad'')"
  by code_simp

section \<open>Loading a file (C2)\<close>




section \<open>Arguments that are not objects (C7)\<close>

lemma primitive_not_instanceof_Object:
  assumes "\<forall>a. v \<noteq> VRef a"
  shows "\<not> instanceof_Object h v"
  using assms by (cases v; cases "length h") (auto simp: instanceof_Object_def)

text \<open>
  C7, as the code has it. The test of lines 131, 154 and 172 is
  \<^verbatim>\<open>instanceof Object\<close>. When the lazy initialisation succeeds and the argument is
  not an instance of \<^verbatim>\<open>Object\<close> (a primitive, \<^verbatim>\<open>null\<close>, \<^verbatim>\<open>undefined\<close>, an
  object with no \<^verbatim>\<open>Object.prototype\<close> on its chain), \<^verbatim>\<open>cfg.merge\<close> and
  \<^verbatim>\<open>cfg.assign\<close> return without error and leave the state as the initialisation left
  it, and \<^verbatim>\<open>cfg.set\<close> with that single argument runs its key/value form with the value
  \<^verbatim>\<open>undefined\<close>.
\<close>

theorem non_object_argument:
  assumes "readDefaultConfigFiles w n s = (Ok (), s1)"
    and "\<not> instanceof_Object (objects s1) v"
  shows "cfg_merge w n v s = (Ok (), s1) \<and>
         cfg_assign w n v s = (Ok (), s1) \<and>
         cfg_set w n v VUndefined s =
           js_bind (\<lambda>s. on_heap (lodash_get w (config s) v VUndefined) s)
             (\<lambda>prev. js_bind (\<lambda>s. on_heap (lodash_set w (config s) v VUndefined) s)
               (\<lambda>r. js_ret prev)) s1"
  using assms
  by (simp add: cfg_merge_def cfg_merge_using_def cfg_assign_def cfg_assign_using_def
      cfg_set_def cfg_set_using_def js_bind_def)

theorem non_object_argument_witness:
  "readDefaultConfigFiles array_world 3 array_state = (Ok (), array_state) \<and>
   \<not> instanceof_Object (objects array_state) VNull \<and>
   cfg_merge array_world 3 VNull array_state = (Ok (), array_state) \<and>
   cfg_assign array_world 3 VNull array_state = (Ok (), array_state)"
proof -
  have i: "readDefaultConfigFiles array_world 3 array_state = (Ok (), array_state)"
    by (simp add: numeral_3_eq_3 readDefaultConfigFiles.simps array_state_def)
  have p: "\<not> instanceof_Object (objects array_state) VNull"
    by (rule primitive_not_instanceof_Object) simp
  show ?thesis
    using i p non_object_argument [OF i p] by simp
qed

text \<open>
  C7 as worded fails on a sequence: the array \<^verbatim>\<open>[7]\<close> is an instance of
  \<^verbatim>\<open>Object\<close>, so \<^verbatim>\<open>cfg.merge\<close> and \<^verbatim>\<open>cfg.assign\<close> copy its element to the key
  \<^verbatim>\<open>0\<close> of the tree, which had no such key.
\<close>

theorem array_argument_changes_tree:
  "cls (objects array_state ! 15) = ''Array'' \<and>
   config array_state = VRef 16 \<and>
   own_property (objects array_state) (VRef 16) ''0'' = None \<and>
   fst (cfg_merge array_world 3 (VRef 15) array_state) = Ok () \<and>
   own_property (objects (snd (cfg_merge array_world 3 (VRef 15) array_state))) (VRef 16) ''0''
     = Some (Data (VNum 7) True True True) \<and>
   fst (cfg_assign array_world 3 (VRef 15) array_state) = Ok () \<and>
   own_property (objects (snd (cfg_assign array_world 3 (VRef 15) array_state))) (VRef 16) ''0''
     = Some (Data (VNum 7) True True True)"
  by code_simp

section \<open>Reading files by key (C4, C9)\<close>

text \<open>
  What \<^verbatim>\<open>cfg.read\<close> does for a key of which the cache object and its prototypes have
  no property. When the tree gives a truthy path and the read succeeds, the result of
  \<^verbatim>\<open>fs.readFileSync\<close> is returned and kept under the key; from then on, in every
  state in which the cache object still holds it, for every world and whatever the tree
  says, \<^verbatim>\<open>cfg.read\<close> returns the same value and changes nothing.
\<close>

lemma cfg_read_hit:
  assumes "fileCache s = VRef c" and "lookup (objects s) c = Some ob"
    and "map_of (props ob) key = Some (Data x wr e cf)"
  shows "cfg_read w n key s = (Ok x, s)"
proof -
  from assms have "has_property (objects s) (fileCache s) key"
    by (simp add: has_property_own)
  moreover from assms have "js_get w (fileCache s) key (objects s) = (Ok x, objects s)"
    by (simp add: js_get_own_data)
  ultimately show ?thesis
    by (simp add: cfg_read_def on_heap_def)
qed

lemma cfg_read_miss_success:
  assumes miss: "\<not> has_property (objects s) (fileCache s) key"
    and path: "cfg w n (VStr key) VUndefined s = (Ok filePath, s1)" "truthy filePath"
    and bytes: "readFileSync w filePath (objects s1) = (Ok x, h2)"
    and cache: "fileCache s1 = VRef c" "lookup h2 c = Some ob" "extensible ob"
      "\<not> has_property h2 (VRef c) key"
  shows "cfg_read w n key s =
           (Ok x,
            s1\<lparr>events := events s1 @ [FileRead filePath],
               objects := store h2 c
                 (ob\<lparr>props := insert_prop key (Data x True True True) (props ob)\<rparr>)\<rparr>)"
proof -
  let ?ob' = "ob\<lparr>props := insert_prop key (Data x True True True) (props ob)\<rparr>"
  let ?h3 = "store h2 c ?ob'"
  from cache have own: "map_of (props ob) key = None"
    by (cases "map_of (props ob) key") (auto simp: has_property_def)
  have put: "put_sloppy w (VRef c) key x h2 = (Ok (), ?h3)"
    using cache by (simp add: put_sloppy_def ordinary_set_new_key js_bind_def js_ret_def)
  have c_lt: "c < length h2"
    using cache(2) by (rule lookup_Some_less)
  then have look: "lookup ?h3 c = Some ?ob'"
    by (simp add: lookup_store)
  have "map_of (props ?ob') key = Some (Data x True True True)"
    using own by (simp add: map_of_insert_prop_same)
  with look have get: "js_get w (VRef c) key ?h3 = (Ok x, ?h3)"
    by (rule js_get_own_data)
  have into: "read_into_cache w key filePath s1 =
                (Ok (), s1\<lparr>events := events s1 @ [FileRead filePath], objects := ?h3\<rparr>)"
    using bytes cache(1) put
    by (simp add: read_into_cache_def js_bind_def emit_def on_heap_def)
  show ?thesis
    using miss path into get cache(1)
    by (simp add: cfg_read_def js_bind_def on_heap_def)
qed

text \<open>
  C4. When the read fails, lines 246 to 248 log and store nothing: the state after
  \<^verbatim>\<open>cfg.read('gone')\<close> has no property \<^verbatim>\<open>gone\<close> in the cache, the call returns
  \<^verbatim>\<open>undefined\<close>, and a second call asks \<^verbatim>\<open>fs.readFileSync\<close> for the file again.
\<close>

theorem cfg_read_failure_not_cached:
  "fst (cfg_read read_world 3 ''gone'' read_state) = Ok VUndefined \<and>
   events (snd (cfg_read read_world 3 ''gone'' read_state)) =
     [FileRead (VStr ''/data/none''), ConsoleError ''[cfg] can't read file gone''] \<and>
   has_property (objects (snd (cfg_read read_world 3 ''gone'' read_state))) (VRef 1) ''gone''
     = False \<and>
   events (snd (cfg_read read_world 3 ''gone'' (snd (cfg_read read_world 3 ''gone'' read_state)))) =
     [FileRead (VStr ''/data/none''), ConsoleError ''[cfg] can't read file gone'',
      FileRead (VStr ''/data/none''), ConsoleError ''[cfg] can't read file gone'']"
  by code_simp

text \<open>
  C9. The key \<^verbatim>\<open>constructor\<close> holds the path of a file that can be read, yet
  \<^verbatim>\<open>'constructor' in fileCache\<close> is true of the empty cache, which inherits the member
  from \<^verbatim>\<open>Object.prototype\<close>: \<^verbatim>\<open>cfg.read('constructor')\<close> returns that member, the
  function at address 2, and reads no file. For the key \<^verbatim>\<open>cert\<close>, which holds the
  same path, the first call returns the fresh buffer at address 16.
\<close>

theorem cfg_read_inherited_key:
  "fst (cfg read_world 3 (VStr ''constructor'') VUndefined read_state) = Ok (VStr ''/data/cert.pem'') \<and>
   fst (readFileSync read_world (VStr ''/data/cert.pem'') (objects read_state)) = Ok (VRef 16) \<and>
   cfg_read read_world 3 ''constructor'' read_state = (Ok (VRef 2), read_state) \<and>
   fst (cfg_read read_world 3 ''cert'' read_state) = Ok (VRef 16) \<and>
   events (snd (cfg_read read_world 3 ''cert'' read_state)) = [FileRead (VStr ''/data/cert.pem'')]"
  by code_simp

section \<open>The merge, key by key (C1)\<close>







section \<open>Computed properties under assign and merge (C10)\<close>

text \<open>
  The single-argument form of \<^verbatim>\<open>cfg.set\<close> on an instance of \<^verbatim>\<open>Object\<close> is
  \<^verbatim>\<open>cfg.assign\<close> followed by \<^verbatim>\<open>return null\<close>.
\<close>

lemma cfg_set_object_is_assign:
  assumes "readDefaultConfigFiles w n s = (Ok (), s1)"
    and "instanceof_Object (objects s1) obj"
  shows "cfg_set w n obj VUndefined s =
           (case cfg_assign w n obj s of
              (Ok u, s2) \<Rightarrow> (Ok VNull, s2)
            | (Threw e, s2) \<Rightarrow> (Threw e, s2))"
  using assms
  by (simp add: cfg_set_def cfg_set_using_def cfg_assign_def cfg_assign_using_def js_bind_def
      js_ret_def split: prod.splits result.splits)




section \<open>The three steps of the public merge (C6)\<close>






section \<open>Lazy initialisation (C5)\<close>














section \<open>The examples of section 8 of the specification\<close>

text \<open>
  \<^verbatim>\<open>merge({a: {x: 1}}, {a: {y: 2}})\<close> gives \<^verbatim>\<open>{a: {x: 1, y: 2}}\<close>; a mapping
  merged over a number replaces it.
\<close>

lemma merge_nested_example:
  "merge plain_world 3 (VRef 2) (VRef 3)
     [object_prototype_obj,
      empty_object\<lparr>props := [(''x'', Data (VNum 1) True True True)]\<rparr>,
      empty_object\<lparr>props := [(''a'', Data (VRef 1) True True True),
                              (''b'', Data (VNum 0) True True True)]\<rparr>,
      empty_object\<lparr>props := [(''a'', Data (VRef 4) True True True),
                              (''b'', Data (VRef 4) True True True)]\<rparr>,
      empty_object\<lparr>props := [(''y'', Data (VNum 2) True True True)]\<rparr>] =
   (Ok (VRef 2),
     [object_prototype_obj,
      empty_object\<lparr>props := [(''x'', Data (VNum 1) True True True),
                              (''y'', Data (VNum 2) True True True)]\<rparr>,
      empty_object\<lparr>props := [(''a'', Data (VRef 1) True True True),
                              (''b'', Data (VRef 4) True True True)]\<rparr>,
      empty_object\<lparr>props := [(''a'', Data (VRef 4) True True True),
                              (''b'', Data (VRef 4) True True True)]\<rparr>,
      empty_object\<lparr>props := [(''y'', Data (VNum 2) True True True)]\<rparr>])"
  by code_simp

text \<open>
  \<^verbatim>\<open>CFG__FOO__BAR_BAZ=5\<close> is the path \<^verbatim>\<open>foo.barBaz\<close> with the string \<^verbatim>\<open>5\<close>, and
  \<^verbatim>\<open>CFG__N=@JSON:17\<close> is the number 17.
\<close>

lemma env_variable_examples:
  "env_key_path env_world ''CFG__FOO__BAR_BAZ'' = ''foo.barBaz'' \<and>
   fst (env_value env_world ''CFG__FOO__BAR_BAZ'' initial_state) = Ok (VStr ''5'') \<and>
   fst (env_value env_world ''CFG__N'' initial_state) = Ok (VNum 17)"
  by code_simp

text \<open>
  A missing file is passed over with \<^verbatim>\<open>ignoreNotFound\<close> and is an error without it.
\<close>

lemma missing_file_example:
  "cfg_file plain_world 3 (VStr ''/app/none.js'') ignore_not_found array_state =
     (Ok (), array_state\<lparr>events := [Required ''/app/none.js'']\<rparr>) \<and>
   cfg_file plain_world 3 (VStr ''/app/none.js'') no_options array_state =
     (Threw ModuleNotFound, array_state\<lparr>events := [Required ''/app/none.js'']\<rparr>)"
  by code_simp

end
